theory Spec2Isabelle
  imports Complex_Main "HOL-Library.Stream"
begin

section \<open>The bounded torque-delta optimizer and its validator\<close>

text \<open>
  A shallow embedding of \<^verbatim>\<open>python/ecu/validator.py\<close> and
  \<^verbatim>\<open>python/ecu/optimizer.py\<close>.

  Conventions of the model:
  \<^item> A Python \<^verbatim>\<open>float\<close> is a mathematical \<^typ>\<open>real\<close>: arithmetic is exact, there is no
    rounding, no overflow, no NaN and no infinity. Consequently \<^verbatim>\<open>math.isfinite\<close> is
    constantly true; the branches that test it are kept where the source has them.
  \<^item> \<^verbatim>\<open>random.Random(seed)\<close> belongs to the Python standard library, not to the repository.
    The generator state is the stream of the values that successive calls of
    \<^verbatim>\<open>random()\<close> return; seeding is a parameter \<open>gen\<close> from seeds to such streams.
    \<^verbatim>\<open>uniform(a, b)\<close> is \<^verbatim>\<open>a + (b - a) * random()\<close>, as in the standard library.
  \<^item> Exceptions are values: every \<^verbatim>\<open>raise\<close> is an \<open>Inl\<close>. The messages of
    \<^verbatim>\<open>ValidationError\<close> are kept as structured values (which check failed, at which bin or
    parameter, with which numbers) instead of formatted strings.
  \<^item> A dictionary that is iterated (\<^verbatim>\<open>calibration\<close>, \<^verbatim>\<open>defaults\<close>) is an association list in
    insertion order; a dictionary that is only looked up is a map.
\<close>

subsection \<open>Data model\<close>

record smoothness_cfg =
  max_second_derivative :: "real option"

record constraints =
  max_peak_gain_ratio :: "real option"
  max_bin_delta_nm :: "real option"
  max_bin_delta_ratio :: "real option"
  smoothness :: "smoothness_cfg option"
  calibration_ranges :: "(string \<rightharpoonup> real \<times> real) option"

datatype validation_error =
    DeltaLengthMismatch nat nat
  | BaselineLengthMismatch nat nat
  | DeltaNotFinite nat real
  | BaselineInvalid nat real
  | ExceedsMaxBinDelta nat real real
  | ExceedsMaxBinRatio nat real real
  | PeakGainExceedsCap real real
  | SmoothnessViolation nat real real
  | CalibrationNotFinite string real
  | CalibrationOutOfRange string real real real

datatype py_error = ValidationError validation_error | ValueError | ZeroDivisionError

datatype warning = ReducesPeakTorque real

type_synonym calibration_t = "(string \<times> real) list"

record search_result =
  torque_delta_nm :: "real list"
  calibration :: calibration_t
  confidence :: real
  estimated_peak_gain_ratio :: real
  cycles_used :: int
  best_score :: real
  warnings :: "warning list"

text \<open>The local variables of \<^verbatim>\<open>run_optimization\<close> that the loop updates.\<close>

record search_state =
  best_delta :: "real list"
  best_calibration :: calibration_t
  best_score_v :: real
  best_warnings :: "warning list"
  cycles_used_v :: int
  rng :: "real stream"

subsection \<open>Reading the constraints dictionary\<close>

text \<open>\<^verbatim>\<open>constraints.get(key, default)\<close> with the defaults of the source.\<close>

definition get_max_bin_delta_nm :: "constraints \<Rightarrow> real" where
  "get_max_bin_delta_nm c = (case max_bin_delta_nm c of None \<Rightarrow> 8 | Some v \<Rightarrow> v)"

definition get_max_bin_delta_ratio :: "constraints \<Rightarrow> real" where
  "get_max_bin_delta_ratio c = (case max_bin_delta_ratio c of None \<Rightarrow> 3 / 100 | Some v \<Rightarrow> v)"

definition get_max_peak_gain_ratio :: "constraints \<Rightarrow> real" where
  "get_max_peak_gain_ratio c = (case max_peak_gain_ratio c of None \<Rightarrow> 2 / 100 | Some v \<Rightarrow> v)"

definition get_max_second_derivative :: "constraints \<Rightarrow> real" where
  "get_max_second_derivative c =
     (case smoothness c of
        None \<Rightarrow> 15 / 100
      | Some cfg \<Rightarrow> (case max_second_derivative cfg of None \<Rightarrow> 15 / 100 | Some v \<Rightarrow> v))"

definition get_calibration_ranges :: "constraints \<Rightarrow> (string \<rightharpoonup> real \<times> real)" where
  "get_calibration_ranges c = (case calibration_ranges c of None \<Rightarrow> Map.empty | Some m \<Rightarrow> m)"

subsection \<open>Built-ins\<close>

definition is_finite :: "real \<Rightarrow> bool" where
  "is_finite value = True"

text \<open>\<^verbatim>\<open>max(xs)\<close> and \<^verbatim>\<open>min(xs)\<close> raise \<^verbatim>\<open>ValueError\<close> on an empty sequence.\<close>

definition py_max :: "real list \<Rightarrow> py_error + real" where
  "py_max xs = (case xs of [] \<Rightarrow> Inl ValueError | x # rest \<Rightarrow> Inr (fold max rest x))"

definition py_min :: "real list \<Rightarrow> py_error + real" where
  "py_min xs = (case xs of [] \<Rightarrow> Inl ValueError | x # rest \<Rightarrow> Inr (fold min rest x))"

text \<open>
  \<^verbatim>\<open>round(x, ndigits)\<close>: the nearest multiple of \<open>10\<^sup>-\<^sup>n\<close>, a tie going to the even
  multiple.
\<close>

definition round_half_even :: "real \<Rightarrow> int" where
  "round_half_even y =
     (let f = \<lfloor>y\<rfloor>; r = y - of_int f
      in if r < 1 / 2 then f else if r > 1 / 2 then f + 1 else if even f then f else f + 1)"

definition py_round :: "real \<Rightarrow> nat \<Rightarrow> real" where
  "py_round x ndigits = of_int (round_half_even (x * 10 ^ ndigits)) / 10 ^ ndigits"

definition uniform :: "real stream \<Rightarrow> real \<Rightarrow> real \<Rightarrow> real \<times> real stream" where
  "uniform g a b = (a + (b - a) * shd g, stl g)"

subsection \<open>\<^verbatim>\<open>validator.py\<close>\<close>

text \<open>Check 2: the loop over \<^verbatim>\<open>enumerate(torque_delta_nm)\<close>.\<close>

fun check_finite :: "nat \<Rightarrow> real list \<Rightarrow> validation_error option" where
  "check_finite i [] = None"
| "check_finite i (delta # rest) =
     (if \<not> is_finite delta then Some (DeltaNotFinite i delta) else check_finite (Suc i) rest)"

text \<open>Check 3: the single loop over \<^verbatim>\<open>enumerate(zip(torque_delta_nm, baseline_torque_nm))\<close>.\<close>

fun check_bins :: "real \<Rightarrow> real \<Rightarrow> nat \<Rightarrow> (real \<times> real) list \<Rightarrow> validation_error option" where
  "check_bins mx mr i [] = None"
| "check_bins mx mr i ((delta, baseline) # rest) =
     (if \<not> is_finite baseline \<or> baseline \<le> 0 then Some (BaselineInvalid i baseline)
      else if \<bar>delta\<bar> > mx then Some (ExceedsMaxBinDelta i delta mx)
      else if \<bar>delta\<bar> / baseline > mr then Some (ExceedsMaxBinRatio i (\<bar>delta\<bar> / baseline) mr)
      else check_bins mx mr (Suc i) rest)"

text \<open>Check 4, once both peaks are known.\<close>

definition check_peak_gain :: "real \<Rightarrow> real \<Rightarrow> real \<Rightarrow> validation_error + warning list" where
  "check_peak_gain mpgr baseline_peak proposed_peak =
     (if baseline_peak > 0 then
        (let peak_gain_ratio = (proposed_peak - baseline_peak) / baseline_peak
         in if peak_gain_ratio > mpgr then Inl (PeakGainExceedsCap peak_gain_ratio mpgr)
            else if peak_gain_ratio < 0 then Inr [ReducesPeakTorque (\<bar>peak_gain_ratio\<bar> * 100)]
            else Inr [])
      else Inr [])"

text \<open>Check 5: the loop over \<^verbatim>\<open>range(1, len(torque_delta_nm) - 1)\<close>.\<close>

fun check_smooth :: "real \<Rightarrow> real list \<Rightarrow> nat list \<Rightarrow> validation_error option" where
  "check_smooth msd d [] = None"
| "check_smooth msd d (i # rest) =
     (let second_deriv = \<bar>d ! (i + 1) - 2 * d ! i + d ! (i - 1)\<bar>
      in if second_deriv > msd then Some (SmoothnessViolation i second_deriv msd)
         else check_smooth msd d rest)"

text \<open>Check 6: the loop over \<^verbatim>\<open>calibration.items()\<close>.\<close>

fun check_calibration :: "(string \<rightharpoonup> real \<times> real) \<Rightarrow> calibration_t \<Rightarrow> validation_error option" where
  "check_calibration ranges [] = None"
| "check_calibration ranges ((param, value) # rest) =
     (if \<not> is_finite value then Some (CalibrationNotFinite param value)
      else (case ranges param of
              None \<Rightarrow> check_calibration ranges rest
            | Some (lo, hi) \<Rightarrow>
                if \<not> (lo \<le> value \<and> value \<le> hi) then Some (CalibrationOutOfRange param value lo hi)
                else check_calibration ranges rest))"

definition validate_proposal ::
  "real list \<Rightarrow> calibration_t \<Rightarrow> real list \<Rightarrow> int list \<Rightarrow> constraints \<Rightarrow> py_error + warning list" where
  "validate_proposal torque_delta cal baseline_torque rpm_bins c =
     (if length torque_delta \<noteq> length rpm_bins
      then Inl (ValidationError (DeltaLengthMismatch (length torque_delta) (length rpm_bins)))
      else if length baseline_torque \<noteq> length rpm_bins
      then Inl (ValidationError (BaselineLengthMismatch (length baseline_torque) (length rpm_bins)))
      else
       (case check_finite 0 torque_delta of
          Some e \<Rightarrow> Inl (ValidationError e)
        | None \<Rightarrow>
       (case check_bins (get_max_bin_delta_nm c) (get_max_bin_delta_ratio c) 0
               (zip torque_delta baseline_torque) of
          Some e \<Rightarrow> Inl (ValidationError e)
        | None \<Rightarrow>
       (case py_max baseline_torque of
          Inl e \<Rightarrow> Inl e
        | Inr baseline_peak \<Rightarrow>
       (case py_max (map2 (+) baseline_torque torque_delta) of
          Inl e \<Rightarrow> Inl e
        | Inr proposed_peak \<Rightarrow>
       (case check_peak_gain (get_max_peak_gain_ratio c) baseline_peak proposed_peak of
          Inl e \<Rightarrow> Inl (ValidationError e)
        | Inr ws \<Rightarrow>
       (case (if length torque_delta \<ge> 3
              then check_smooth (get_max_second_derivative c) torque_delta
                     [1 ..< length torque_delta - 1]
              else None) of
          Some e \<Rightarrow> Inl (ValidationError e)
        | None \<Rightarrow>
       (case check_calibration (get_calibration_ranges c) cal of
          Some e \<Rightarrow> Inl (ValidationError e)
        | None \<Rightarrow> Inr ws))))))))"

subsection \<open>\<^verbatim>\<open>optimizer.py\<close>\<close>

definition compute_score :: "real list \<Rightarrow> real" where
  "compute_score proposed_torque = sum_list proposed_torque"

definition clamp :: "real \<Rightarrow> real \<Rightarrow> real \<Rightarrow> real" where
  "clamp value lo hi = max lo (min hi value)"

definition per_bin_limit :: "constraints \<Rightarrow> real list \<Rightarrow> real list" where
  "per_bin_limit c baseline_torque =
     map (\<lambda>b. min (get_max_bin_delta_nm c) (b * get_max_bin_delta_ratio c)) baseline_torque"

text \<open>One sample of the bell, before the safety clamp.\<close>

definition bell :: "real \<Rightarrow> real \<Rightarrow> real \<Rightarrow> nat \<Rightarrow> real" where
  "bell peak center sigma i = peak * exp (- (1 / 2) * ((real i - center) / sigma) ^ 2)"

text \<open>
  The generator returns the profile together with the generator state it leaves behind.
  \<^verbatim>\<open>min(per_bin_limit)\<close> raises on an empty baseline; the division by \<open>sigma\<close> raises
  when \<open>sigma\<close> is zero.
\<close>

definition gaussian_delta_profile ::
  "real stream \<Rightarrow> real list \<Rightarrow> constraints \<Rightarrow> real \<Rightarrow> py_error + (real list \<times> real stream)" where
  "gaussian_delta_profile g baseline_torque c scale =
     (let n = length baseline_torque;
          max_second_deriv = get_max_second_derivative c;
          limits = per_bin_limit c baseline_torque
      in case py_min limits of
           Inl e \<Rightarrow> Inl e
         | Inr m \<Rightarrow>
            (let global_limit = m * scale
             in if global_limit \<le> 0 \<or> max_second_deriv \<le> 0 then Inr (replicate n 0, g)
                else
                 (let (peak, g1) = uniform g 0 global_limit
                  in if peak \<le> 0 then Inr (replicate n 0, g1)
                     else
                      (let min_sigma = sqrt (peak / max_second_deriv);
                           max_sigma = max (real n) (min_sigma + 1 / 10);
                           (sigma, g2) = uniform g1 min_sigma max_sigma;
                           (center, g3) = uniform g2 0 (real (n - 1))
                       in if sigma = 0 then Inl ZeroDivisionError
                          else Inr (map (\<lambda>(i, lim). clamp (bell peak center sigma i) 0 lim)
                                      (enumerate 0 limits), g3)))))"

definition defaults :: "(string \<times> real \<times> real) list" where
  "defaults =
     [(''afr_target'', (25 / 2, 27 / 2)),
      (''ign_timing_deg'', (0, 4)),
      (''boost_target_psi'', (0, 14))]"

text \<open>The loop over \<^verbatim>\<open>defaults.items()\<close> of \<^verbatim>\<open>_pick_calibration\<close>.\<close>

fun pick_params ::
  "(string \<rightharpoonup> real \<times> real) \<Rightarrow> real stream \<Rightarrow> (string \<times> real \<times> real) list
    \<Rightarrow> calibration_t \<times> real stream" where
  "pick_params ranges g [] = ([], g)"
| "pick_params ranges g ((param, fallback_range) # rest) =
     (let (lo, hi) = (case ranges param of Some r \<Rightarrow> r | None \<Rightarrow> fallback_range);
          (lo', hi') = (if lo > hi then (hi, lo) else (lo, hi));
          (v, g') = uniform g lo' hi';
          (cal, g'') = pick_params ranges g' rest
      in ((param, v) # cal, g''))"

definition pick_calibration :: "real stream \<Rightarrow> constraints \<Rightarrow> calibration_t \<times> real stream" where
  "pick_calibration g c = pick_params (get_calibration_ranges c) g defaults"

text \<open>
  One iteration of the \<^verbatim>\<open>for cycle in range(cycle_budget)\<close> loop. A
  \<^verbatim>\<open>ValidationError\<close> is caught (\<^verbatim>\<open>continue\<close>); any other exception propagates.
\<close>

definition search_cycle ::
  "real list \<Rightarrow> int list \<Rightarrow> constraints \<Rightarrow> int \<Rightarrow> nat \<Rightarrow> search_state \<Rightarrow> py_error + search_state" where
  "search_cycle baseline_torque rpm_bins c cycle_budget cyc st =
     (let scale = 1 - (real cyc / real_of_int (max cycle_budget 1)) * (1 / 2)
      in case gaussian_delta_profile (rng st) baseline_torque c scale of
           Inl e \<Rightarrow> Inl e
         | Inr (candidate_delta, g1) \<Rightarrow>
            (let (candidate_calibration, g2) = pick_calibration g1 c;
                 st1 = st\<lparr>cycles_used_v := cycles_used_v st + 1, rng := g2\<rparr>
             in case validate_proposal candidate_delta candidate_calibration
                       baseline_torque rpm_bins c of
                  Inl (ValidationError e) \<Rightarrow> Inr st1
                | Inl e \<Rightarrow> Inl e
                | Inr ws \<Rightarrow>
                   (let score = compute_score (map2 (+) baseline_torque candidate_delta)
                    in if score > best_score_v st1
                       then Inr (st1\<lparr>best_delta := candidate_delta,
                                     best_calibration := candidate_calibration,
                                     best_score_v := score,
                                     best_warnings := ws\<rparr>)
                       else Inr st1)))"

fun search_loop ::
  "real list \<Rightarrow> int list \<Rightarrow> constraints \<Rightarrow> int \<Rightarrow> nat list \<Rightarrow> search_state \<Rightarrow> py_error + search_state" where
  "search_loop baseline_torque rpm_bins c cycle_budget [] st = Inr st"
| "search_loop baseline_torque rpm_bins c cycle_budget (cyc # rest) st =
     (case search_cycle baseline_torque rpm_bins c cycle_budget cyc st of
        Inl e \<Rightarrow> Inl e
      | Inr st' \<Rightarrow> search_loop baseline_torque rpm_bins c cycle_budget rest st')"

text \<open>The metric of lines 193 to 198, for a retained delta.\<close>

definition peak_gain :: "real \<Rightarrow> real \<Rightarrow> real" where
  "peak_gain baseline_peak proposed_peak =
     (if baseline_peak > 0 then (proposed_peak - baseline_peak) / baseline_peak else 0)"

definition run_optimization ::
  "(int \<Rightarrow> real stream) \<Rightarrow> real list \<Rightarrow> int list \<Rightarrow> constraints \<Rightarrow> int \<Rightarrow> int
    \<Rightarrow> py_error + search_result" where
  "run_optimization gen baseline_torque rpm_bins c cycle_budget seed =
     (let g = gen seed;
          n_bins = length baseline_torque
      in case py_max baseline_torque of
           Inl e \<Rightarrow> Inl e
         | Inr baseline_peak \<Rightarrow>
            (let (cal0, g0) = pick_calibration g c;
                 st0 = \<lparr>best_delta = replicate n_bins 0,
                        best_calibration = cal0,
                        best_score_v = compute_score baseline_torque,
                        best_warnings = [],
                        cycles_used_v = 0,
                        rng = g0\<rparr>
             in case search_loop baseline_torque rpm_bins c cycle_budget
                       [0 ..< nat cycle_budget] st0 of
                  Inl e \<Rightarrow> Inl e
                | Inr st \<Rightarrow>
                   (case py_max (map2 (+) baseline_torque (best_delta st)) of
                      Inl e \<Rightarrow> Inl e
                    | Inr proposed_peak \<Rightarrow>
                       (let estimated = peak_gain baseline_peak proposed_peak;
                            mpgr = get_max_peak_gain_ratio c;
                            conf = clamp (if mpgr > 0 then estimated / mpgr else 0) 0 1
                        in Inr \<lparr>torque_delta_nm = best_delta st,
                                calibration = best_calibration st,
                                confidence = py_round conf 4,
                                estimated_peak_gain_ratio = py_round estimated 6,
                                cycles_used = cycles_used_v st,
                                best_score = py_round (best_score_v st) 4,
                                warnings = best_warnings st\<rparr>))))"

subsection \<open>Concrete inputs\<close>

text \<open>The empty dictionary \<^verbatim>\<open>{}\<close>: every limit takes its default.\<close>

definition empty_constraints :: constraints where
  "empty_constraints =
     \<lparr>max_peak_gain_ratio = None, max_bin_delta_nm = None, max_bin_delta_ratio = None,
      smoothness = None, calibration_ranges = None\<rparr>"

text \<open>The constraints of the repository's tests (\<^verbatim>\<open>_base_constraints\<close>).\<close>

definition base_constraints :: constraints where
  "base_constraints =
     \<lparr>max_peak_gain_ratio = Some (2 / 100), max_bin_delta_nm = Some 8,
      max_bin_delta_ratio = Some (3 / 100),
      smoothness = Some \<lparr>max_second_derivative = Some (15 / 100)\<rparr>,
      calibration_ranges = Some [''afr_target'' \<mapsto> (23 / 2, 147 / 10),
         ''ign_timing_deg'' \<mapsto> (- 2, 8), ''boost_target_psi'' \<mapsto> (0, 22)]\<rparr>"

text \<open>Scenario B: only the smoothness bound is given.\<close>

definition scenario_B_constraints :: constraints where
  "scenario_B_constraints =
     empty_constraints\<lparr>smoothness := Some \<lparr>max_second_derivative = Some (15 / 100)\<rparr>\<rparr>"


text \<open>
  The streams \<^verbatim>\<open>random()\<close> can produce: every draw lies in the half-open unit interval.
\<close>

definition unit_draws :: "real stream \<Rightarrow> bool" where
  "unit_draws g = (\<forall>x \<in> sset g. 0 \<le> x \<and> x < 1)"

text \<open>A negative absolute cap, and an inverted calibration range.\<close>

definition negative_cap_constraints :: constraints where
  "negative_cap_constraints = empty_constraints\<lparr>max_bin_delta_nm := Some (- 1)\<rparr>"

definition inverted_range_constraints :: constraints where
  "inverted_range_constraints =
     empty_constraints\<lparr>calibration_ranges := Some [''afr_target'' \<mapsto> (147 / 10, 23 / 2)]\<rparr>"

(*PROPERTIES*)
section \<open>Properties\<close>

lemmas getters = get_max_bin_delta_nm_def get_max_bin_delta_ratio_def
  get_max_peak_gain_ratio_def get_max_second_derivative_def get_calibration_ranges_def

subsection \<open>The validator\<close>

lemma check_finite_None: "check_finite i d = None"
  by (induction d arbitrary: i) (simp_all add: is_finite_def)

text \<open>
  The per-bin loop stops at the first bin that fails any of its three tests, and reports
  the first test that fails there.
\<close>

lemma check_bins_first:
  assumes "i < length ps"
    and "\<forall>j<i. 0 < snd (ps ! j) \<and> \<bar>fst (ps ! j)\<bar> \<le> mx \<and> \<bar>fst (ps ! j)\<bar> / snd (ps ! j) \<le> mr"
    and "\<not> (0 < snd (ps ! i) \<and> \<bar>fst (ps ! i)\<bar> \<le> mx \<and> \<bar>fst (ps ! i)\<bar> / snd (ps ! i) \<le> mr)"
  shows "check_bins mx mr k ps =
     Some (if snd (ps ! i) \<le> 0 then BaselineInvalid (k + i) (snd (ps ! i))
           else if \<bar>fst (ps ! i)\<bar> > mx then ExceedsMaxBinDelta (k + i) (fst (ps ! i)) mx
           else ExceedsMaxBinRatio (k + i) (\<bar>fst (ps ! i)\<bar> / snd (ps ! i)) mr)"
  using assms
proof (induction ps arbitrary: i k)
  case Nil
  then show ?case by simp
next
  case (Cons p ps)
  obtain dl bl where p: "p = (dl, bl)" by (cases p)
  show ?case
  proof (cases i)
    case 0
    with Cons.prems p show ?thesis by (auto simp: is_finite_def)
  next
    case (Suc i')
    from Cons.prems(2) Suc have h0: "0 < bl \<and> \<bar>dl\<bar> \<le> mx \<and> \<bar>dl\<bar> / bl \<le> mr"
      using p by force
    have h1: "\<forall>j<i'. 0 < snd (ps ! j) \<and> \<bar>fst (ps ! j)\<bar> \<le> mx
                \<and> \<bar>fst (ps ! j)\<bar> / snd (ps ! j) \<le> mr"
      using Cons.prems(2) Suc by force
    have "check_bins mx mr (Suc k) ps =
     Some (if snd (ps ! i') \<le> 0 then BaselineInvalid (Suc k + i') (snd (ps ! i'))
           else if \<bar>fst (ps ! i')\<bar> > mx then ExceedsMaxBinDelta (Suc k + i') (fst (ps ! i')) mx
           else ExceedsMaxBinRatio (Suc k + i') (\<bar>fst (ps ! i')\<bar> / snd (ps ! i')) mr)"
      using Cons.IH[of i' "Suc k"] Cons.prems Suc h1 by simp
    then show ?thesis using h0 p Suc by (simp add: is_finite_def)
  qed
qed

text \<open>
  Claim C6, as stated: the absolute-cap test is finished over all bins before the ratio
  test starts, so an absolute-cap violation anywhere is the reported reason. It fails:
  with the default limits, delta \<open>[5, 9]\<close> on baseline \<open>[100, 1000]\<close> has bin 1 above the
  absolute cap of 8, yet the reason reported is the ratio violation of bin 0.
\<close>

theorem validator_order_counterexample:
  "\<bar>[5, 9 :: real] ! 1\<bar> > get_max_bin_delta_nm empty_constraints \<and>
   validate_proposal [5, 9] [] [100, 1000] [1000, 2000] empty_constraints =
     Inl (ValidationError (ExceedsMaxBinRatio 0 (1 / 20) (3 / 100)))"
  by (simp add: validate_proposal_def empty_constraints_def getters is_finite_def)

text \<open>
  Claim C6, amended: the baseline test, the absolute-cap test and the ratio-cap test run
  bin by bin in one pass. When the lengths agree and \<open>i\<close> is the lowest bin that fails any
  of the three, the validator rejects with the first of the three tests that fails at
  bin \<open>i\<close>, whatever later bins hold.
\<close>

theorem validator_first_bin_violation:
  assumes "length d = length r" and "length b = length r" and "i < length d"
    and "\<forall>j<i. 0 < b ! j \<and> \<bar>d ! j\<bar> \<le> get_max_bin_delta_nm c
           \<and> \<bar>d ! j\<bar> / b ! j \<le> get_max_bin_delta_ratio c"
    and "\<not> (0 < b ! i \<and> \<bar>d ! i\<bar> \<le> get_max_bin_delta_nm c
           \<and> \<bar>d ! i\<bar> / b ! i \<le> get_max_bin_delta_ratio c)"
  shows "validate_proposal d cal b r c =
     Inl (ValidationError
       (if b ! i \<le> 0 then BaselineInvalid i (b ! i)
        else if \<bar>d ! i\<bar> > get_max_bin_delta_nm c
        then ExceedsMaxBinDelta i (d ! i) (get_max_bin_delta_nm c)
        else ExceedsMaxBinRatio i (\<bar>d ! i\<bar> / b ! i) (get_max_bin_delta_ratio c)))"
proof -
  have len: "i < length (zip d b)" using assms by simp
  have "check_bins (get_max_bin_delta_nm c) (get_max_bin_delta_ratio c) 0 (zip d b) =
     Some (if b ! i \<le> 0 then BaselineInvalid i (b ! i)
        else if \<bar>d ! i\<bar> > get_max_bin_delta_nm c
        then ExceedsMaxBinDelta i (d ! i) (get_max_bin_delta_nm c)
        else ExceedsMaxBinRatio i (\<bar>d ! i\<bar> / b ! i) (get_max_bin_delta_ratio c))"
    using check_bins_first[OF len, of "get_max_bin_delta_nm c" "get_max_bin_delta_ratio c" 0] assms
    by simp
  then show ?thesis using assms(1,2)
    by (simp add: validate_proposal_def check_finite_None)
qed

theorem validator_first_bin_violation_witness:
  "validate_proposal [5, 9, 1] [] [100, 1000, 0] [1000, 2000, 3000] empty_constraints =
     Inl (ValidationError (ExceedsMaxBinRatio 0 (1 / 20) (3 / 100)))"
  using validator_first_bin_violation
          [of "[5, 9, 1]" "[1000, 2000, 3000]" "[100, 1000, 0]" 0 empty_constraints "[]"]
  by (simp add: empty_constraints_def getters)

text \<open>
  Claim C8 (Scenario B), as stated: delta \<open>[0,0,5,0,0]\<close> on the flat baseline 200 with
  \<open>max_second_derivative = 0.15\<close> and the other limits at their defaults is rejected for
  smoothness at the centre bin with second difference 10. It fails: the reason is not
  that one.
\<close>

theorem scenario_B_counterexample:
  "validate_proposal [0, 0, 5, 0, 0] [] [200, 200, 200, 200, 200]
     [1000, 2000, 3000, 4000, 5000] scenario_B_constraints \<noteq>
   Inl (ValidationError (SmoothnessViolation 2 10 (15 / 100)))"
  by (simp add: validate_proposal_def scenario_B_constraints_def empty_constraints_def getters
      is_finite_def py_max_def check_peak_gain_def)

text \<open>
  Claim C8, amended: with the default \<open>max_peak_gain_ratio = 0.02\<close> the candidate is
  rejected by the peak-gain cap (gain \<open>5/200 = 0.025\<close>), which is checked before
  smoothness. With \<open>max_peak_gain_ratio = 0.05\<close>, as in the repository's test, it is
  rejected for smoothness, and the violation reported is the first one met: bin 1, whose
  second difference is 5.
\<close>

theorem scenario_B:
  "validate_proposal [0, 0, 5, 0, 0] [] [200, 200, 200, 200, 200]
     [1000, 2000, 3000, 4000, 5000] scenario_B_constraints =
   Inl (ValidationError (PeakGainExceedsCap (1 / 40) (2 / 100)))
   \<and>
   validate_proposal [0, 0, 5, 0, 0] [] [200, 200, 200, 200, 200]
     [1000, 2000, 3000, 4000, 5000]
     (scenario_B_constraints\<lparr>max_peak_gain_ratio := Some (5 / 100)\<rparr>) =
   Inl (ValidationError (SmoothnessViolation 1 5 (15 / 100)))"
  by (simp add: validate_proposal_def scenario_B_constraints_def empty_constraints_def getters
      is_finite_def py_max_def check_peak_gain_def upt_rec)

text \<open>
  Claim C9 (Scenario C): whenever the delta passes every check that precedes the
  calibration check (the validator accepts it with an empty calibration), a calibration
  with \<open>afr_target = 10.0\<close> against the range \<open>[11.5, 14.7]\<close> is rejected, and the reason
  names \<open>afr_target\<close>.
\<close>

theorem scenario_C:
  assumes "validate_proposal d [] b r c = Inr ws"
    and "get_calibration_ranges c ''afr_target'' = Some (23 / 2, 147 / 10)"
  shows "validate_proposal d ((''afr_target'', 10) # rest) b r c =
           Inl (ValidationError (CalibrationOutOfRange ''afr_target'' 10 (23 / 2) (147 / 10)))"
  using assms
  by (auto simp: validate_proposal_def is_finite_def split: if_splits option.splits sum.splits)

theorem scenario_C_witness:
  "validate_proposal [0, 0, 0] [(''afr_target'', 10)] [200, 210, 220] [1000, 2000, 3000]
     base_constraints =
   Inl (ValidationError (CalibrationOutOfRange ''afr_target'' 10 (23 / 2) (147 / 10)))"
proof -
  have a: "validate_proposal [0, 0, 0] [] [200, 210, 220] [1000, 2000, 3000] base_constraints
             = Inr []"
    by (simp add: validate_proposal_def base_constraints_def getters is_finite_def py_max_def
        check_peak_gain_def upt_rec)
  have b: "get_calibration_ranges base_constraints ''afr_target'' = Some (23 / 2, 147 / 10)"
    by (simp add: base_constraints_def getters)
  show ?thesis using scenario_C[OF a b, of "[]"] .
qed

subsection \<open>Curvature of the bell\<close>





subsection \<open>The candidate generator\<close>

lemma py_min_eq: "py_min xs = (if xs = [] then Inl ValueError else Inr (Min (set xs)))"
proof (cases xs)
  case Nil
  then show ?thesis by (simp add: py_min_def)
next
  case (Cons a l)
  then show ?thesis using Min.set_eq_fold[of a l] by (simp add: py_min_def)
qed

lemma py_max_eq: "py_max xs = (if xs = [] then Inl ValueError else Inr (Max (set xs)))"
proof (cases xs)
  case Nil
  then show ?thesis by (simp add: py_max_def)
next
  case (Cons a l)
  then show ?thesis using Max.set_eq_fold[of a l] by (simp add: py_max_def)
qed




lemma clamp_bounds: "0 \<le> clamp v 0 hi \<and> clamp v 0 hi \<le> max 0 hi"
  by (auto simp: clamp_def)


lemma sigma_pos:
  assumes "0 < peak" and "0 < msd" and "0 \<le> u"
  shows "sqrt (peak / msd) \<le> sqrt (peak / msd) + (max n (sqrt (peak / msd) + 1 / 10) - sqrt (peak / msd)) * u"
    and "0 < sqrt (peak / msd)"
proof -
  show "0 < sqrt (peak / msd)" using assms by simp
  have "0 \<le> max n (sqrt (peak / msd) + 1 / 10) - sqrt (peak / msd)" by simp
  then have "0 \<le> (max n (sqrt (peak / msd) + 1 / 10) - sqrt (peak / msd)) * u"
    using assms(3) by simp
  then show "sqrt (peak / msd) \<le> sqrt (peak / msd) + (max n (sqrt (peak / msd) + 1 / 10) - sqrt (peak / msd)) * u"
    by simp
qed

text \<open>The three shapes of a successful return of the generator.\<close>

lemma gaussian_delta_profile_cases:
  fixes c :: constraints and baseline :: "real list" and scale :: real and g :: "real stream"
  assumes "baseline \<noteq> []" and "0 \<le> shd (stl g)"
  defines "m \<equiv> Min (set (per_bin_limit c baseline))"
  defines "msd \<equiv> get_max_second_derivative c"
  defines "peak \<equiv> m * scale * shd g"
  shows "(m * scale \<le> 0 \<or> msd \<le> 0) \<and>
           gaussian_delta_profile g baseline c scale = Inr (replicate (length baseline) 0, g)
       \<or> (\<not> (m * scale \<le> 0 \<or> msd \<le> 0) \<and> peak \<le> 0 \<and>
           gaussian_delta_profile g baseline c scale = Inr (replicate (length baseline) 0, stl g))
       \<or> (\<not> (m * scale \<le> 0 \<or> msd \<le> 0) \<and> 0 < peak \<and>
           (\<exists>sigma center. sqrt (peak / msd) \<le> sigma \<and> 0 < sigma \<and>
              gaussian_delta_profile g baseline c scale =
                Inr (map (\<lambda>(i, lim). clamp (bell peak center sigma i) 0 lim)
                         (enumerate 0 (per_bin_limit c baseline)), stl (stl (stl g)))))"
proof -
  have ne: "per_bin_limit c baseline \<noteq> []" using assms(1) by (simp add: per_bin_limit_def)
  show ?thesis
  proof (cases "m * scale \<le> 0 \<or> msd \<le> 0")
    case True
    then show ?thesis using ne
      by (simp add: gaussian_delta_profile_def py_min_eq m_def msd_def Let_def)
  next
    case False
    note F = this
    show ?thesis
    proof (cases "peak \<le> 0")
      case True
      then show ?thesis using ne F
        by (simp add: gaussian_delta_profile_def py_min_eq m_def msd_def peak_def Let_def uniform_def)
    next
      case False
      then have pp: "0 < peak" by simp
      have mp: "0 < msd" using F by simp
      define sigma where "sigma = sqrt (peak / msd) + (max (real (length baseline)) (sqrt (peak / msd) + 1 / 10) - sqrt (peak / msd)) * shd (stl g)"
      have s1: "sqrt (peak / msd) \<le> sigma" unfolding sigma_def
        by (rule sigma_pos(1)[OF pp mp assms(2)])
      have s2: "0 < sigma" using s1 sigma_pos(2)[OF pp mp assms(2)] by linarith
      have "gaussian_delta_profile g baseline c scale =
                Inr (map (\<lambda>(i, lim). clamp (bell peak (real (length baseline - 1) * shd (stl (stl g))) sigma i) 0 lim)
                         (enumerate 0 (per_bin_limit c baseline)), stl (stl (stl g)))"
        using ne F pp s2
        by (simp add: gaussian_delta_profile_def py_min_eq m_def[symmetric] msd_def[symmetric] Let_def uniform_def
            peak_def[symmetric] sigma_def[symmetric])
      then show ?thesis using F pp s1 s2 by blast
    qed
  qed
qed

lemma unit_draws_shd: "unit_draws g \<Longrightarrow> 0 \<le> shd g \<and> shd g < 1"
  by (simp add: unit_draws_def shd_sset)

lemma unit_draws_stl: "unit_draws g \<Longrightarrow> unit_draws (stl g)"
  by (auto simp: unit_draws_def dest: stl_sset)

lemma unit_draws_sconst: "unit_draws (sconst (1 / 2))"
  by (simp add: unit_draws_def)

lemma nth_profile:
  "j < length lims \<Longrightarrow>
   map (\<lambda>(i, lim). clamp (bell peak center sigma i) 0 lim) (enumerate 0 lims) ! j
     = clamp (bell peak center sigma j) 0 (lims ! j)"
  by (simp add: nth_enumerate_eq)

lemma per_bin_limit_nth:
  "i < length baseline \<Longrightarrow>
   per_bin_limit c baseline ! i = min (get_max_bin_delta_nm c) (baseline ! i * get_max_bin_delta_ratio c)"
  by (simp add: per_bin_limit_def)

lemma length_per_bin_limit: "length (per_bin_limit c baseline) = length baseline"
  by (simp add: per_bin_limit_def)

text \<open>
  Claim C5, amended: on a non-empty baseline, and for every stream of unit draws, the
  generator returns a profile of the baseline's length; every entry lies between 0 and
  \<open>max 0 (min max_bin_delta_nm (baseline[i] * max_bin_delta_ratio))\<close>, hence within
  \<open>[0, cap]\<close> whenever that cap is not negative; and when \<open>min(per_bin_limit) * scale \<le> 0\<close>
  or \<open>max_second_derivative \<le> 0\<close> the profile is all zero and the generator state is
  returned untouched (no draw consumed).
\<close>

theorem generator_profile:
  assumes "baseline \<noteq> []" and "unit_draws g"
  shows "\<exists>d g'. gaussian_delta_profile g baseline c scale = Inr (d, g')
     \<and> length d = length baseline
     \<and> (\<forall>i<length baseline. 0 \<le> d ! i \<and>
           d ! i \<le> max 0 (min (get_max_bin_delta_nm c) (baseline ! i * get_max_bin_delta_ratio c)))
     \<and> (Min (set (per_bin_limit c baseline)) * scale \<le> 0 \<or> get_max_second_derivative c \<le> 0
          \<longrightarrow> d = replicate (length baseline) 0 \<and> g' = g)"
proof -
  have u2: "0 \<le> shd (stl g)" using assms(2) unit_draws_shd unit_draws_stl by blast
  let ?m = "Min (set (per_bin_limit c baseline))"
  let ?msd = "get_max_second_derivative c"
  let ?peak = "?m * scale * shd g"
  from gaussian_delta_profile_cases[OF assms(1) u2, of c scale]
  consider (zero) "?m * scale \<le> 0 \<or> ?msd \<le> 0"
       "gaussian_delta_profile g baseline c scale = Inr (replicate (length baseline) 0, g)"
    | (nopeak) "\<not> (?m * scale \<le> 0 \<or> ?msd \<le> 0)"
       "gaussian_delta_profile g baseline c scale = Inr (replicate (length baseline) 0, stl g)"
    | (bell) sigma center where "\<not> (?m * scale \<le> 0 \<or> ?msd \<le> 0)"
       "gaussian_delta_profile g baseline c scale =
                Inr (map (\<lambda>(i, lim). clamp (bell ?peak center sigma i) 0 lim)
                         (enumerate 0 (per_bin_limit c baseline)), stl (stl (stl g)))"
    by blast
  then show ?thesis
  proof cases
    case zero
    then show ?thesis by simp
  next
    case nopeak
    then show ?thesis by simp
  next
    case bell
    let ?d = "map (\<lambda>(i, lim). clamp (bell ?peak center sigma i) 0 lim)
                 (enumerate 0 (per_bin_limit c baseline))"
    have "0 \<le> ?d ! i \<and>
          ?d ! i \<le> max 0 (min (get_max_bin_delta_nm c) (baseline ! i * get_max_bin_delta_ratio c))"
      if "i < length baseline" for i
    proof -
      have "?d ! i = clamp (bell ?peak center sigma i) 0 (per_bin_limit c baseline ! i)"
        using that by (intro nth_profile) (simp add: length_per_bin_limit)
      then show ?thesis using clamp_bounds that by (simp add: per_bin_limit_nth)
    qed
    then have "\<forall>i<length baseline. 0 \<le> ?d ! i \<and>
          ?d ! i \<le> max 0 (min (get_max_bin_delta_nm c) (baseline ! i * get_max_bin_delta_ratio c))"
      by blast
    then show ?thesis using bell by (simp add: length_per_bin_limit)
  qed
qed

theorem generator_profile_witness:
  "gaussian_delta_profile (sconst (1 / 2)) [200] (empty_constraints\<lparr>max_bin_delta_nm := Some 0\<rparr>) 1
     = Inr ([0], sconst (1 / 2))"
proof -
  have a: "[200 :: real] \<noteq> []" by simp
  have m: "Min (set (per_bin_limit (empty_constraints\<lparr>max_bin_delta_nm := Some 0\<rparr>) [200])) * 1 \<le> 0"
    by (simp add: per_bin_limit_def empty_constraints_def getters)
  show ?thesis
    using generator_profile[OF a unit_draws_sconst, of "empty_constraints\<lparr>max_bin_delta_nm := Some 0\<rparr>" 1] m
    by auto
qed

text \<open>
  Claim C5, as stated: every entry of the generator's output lies in
  \<open>[0, min max_bin_delta_nm (baseline[i] * max_bin_delta_ratio)]\<close>, always. It fails when a
  cap is negative: with \<open>max_bin_delta_nm = -1\<close> the all-zero profile is returned, and 0
  exceeds the cap. On an empty baseline there is no output at all: \<^verbatim>\<open>min\<close> raises.
\<close>

theorem generator_cap_counterexample:
  "gaussian_delta_profile (sconst (1 / 2)) [200] negative_cap_constraints 1
     = Inr ([0], sconst (1 / 2))
   \<and> \<not> ([0 :: real] ! 0 \<le> min (get_max_bin_delta_nm negative_cap_constraints)
                            ([200] ! 0 * get_max_bin_delta_ratio negative_cap_constraints))
   \<and> gaussian_delta_profile (sconst (1 / 2)) [] empty_constraints 1 = Inl ValueError"
  by (simp add: gaussian_delta_profile_def per_bin_limit_def py_min_def negative_cap_constraints_def
      empty_constraints_def getters)



end
